theory Spec2Isabelle
  imports Complex_Main
begin

section \<open>Python values and outcomes\<close>

text \<open>
  The driver \<^verbatim>\<open>pygaze/_eyetracker/libtobiiglasses.py\<close> passes samples around as
  dictionaries with string keys whose values are numbers or lists of numbers. The values
  are modelled dynamically typed, as Python has them. Numbers are real numbers: the
  integers and floats of the source are not told apart, which is what Python's
  \<^verbatim>\<open>==\<close> does when it compares \<^verbatim>\<open>-1.0\<close> with \<^verbatim>\<open>-1\<close>. A bound method that is
  looked up but not called is a value of its own.
\<close>

datatype pyval =
    PyNone
  | Num real
  | Str string
  | Lst "pyval list"
  | Dct "(string \<times> pyval) list"
  | BoundMethod string

datatype py_error =
    IndexError
  | KeyError
  | TypeError
  | ValueError
  | AttributeError
  | NameError
  | UnboundLocalError
  | ZeroDivisionError
  | PyException string

text \<open>
  A call returns a value, raises, or is still polling when the finite prefix of the
  sample stream or of the clock readings it was given ends (\<open>Pending\<close>).
\<close>

datatype 'a outcome = Pending | Raise py_error | Return 'a

definition then_do :: "'a outcome \<Rightarrow> ('a \<Rightarrow> 'b outcome) \<Rightarrow> 'b outcome" where
  "then_do m f = (case m of Pending \<Rightarrow> Pending | Raise e \<Rightarrow> Raise e | Return x \<Rightarrow> f x)"

text \<open>\<^verbatim>\<open>v['key']\<close> with a string key.\<close>

fun subscript :: "pyval \<Rightarrow> string \<Rightarrow> pyval outcome" where
  "subscript (Dct kv) k = (case map_of kv k of None \<Rightarrow> Raise KeyError | Some v \<Rightarrow> Return v)"
| "subscript v k = Raise TypeError"

text \<open>\<^verbatim>\<open>v[i]\<close> with an integer literal; a negative index counts from the end.\<close>

fun index :: "pyval \<Rightarrow> int \<Rightarrow> pyval outcome" where
  "index (Lst xs) i =
     (if 0 \<le> i \<and> i < int (length xs) then Return (xs ! nat i)
      else if i < 0 \<and> - int (length xs) \<le> i then Return (xs ! nat (int (length xs) + i))
      else Raise IndexError)"
| "index (Str s) i =
     (if 0 \<le> i \<and> i < int (length s) then Return (Str [s ! nat i])
      else if i < 0 \<and> - int (length s) \<le> i then Return (Str [s ! nat (int (length s) + i)])
      else Raise IndexError)"
| "index (Dct kv) i = Raise KeyError"
| "index v i = Raise TypeError"

text \<open>\<^verbatim>\<open>v[:]\<close>, the copy of a sequence.\<close>

fun slice_all :: "pyval \<Rightarrow> pyval outcome" where
  "slice_all (Lst xs) = Return (Lst xs)"
| "slice_all (Str s) = Return (Str s)"
| "slice_all v = Raise TypeError"

text \<open>\<^verbatim>\<open>x - y\<close> on two values: defined on numbers only.\<close>

fun py_sub :: "pyval \<Rightarrow> pyval \<Rightarrow> real outcome" where
  "py_sub (Num x) (Num y) = Return (x - y)"
| "py_sub v w = Raise TypeError"

text \<open>\<^verbatim>\<open>x / y\<close> on two floats.\<close>

definition py_div :: "real \<Rightarrow> real \<Rightarrow> real outcome" where
  "py_div x y = (if y = 0 then Raise ZeroDivisionError else Return (x / y))"

section \<open>The tracker link\<close>

text \<open>
  The controller object \<^verbatim>\<open>self.tobiiglasses\<close> is not part of the file. What the driver
  sees of it at one call is a snapshot: whether it is streaming, and what \<^verbatim>\<open>get_gp()\<close>
  and \<^verbatim>\<open>get_gp3()\<close> return. A run of a detector is given the list of the snapshots its
  successive calls observe, and the list of the readings of \<^verbatim>\<open>clock.get_time()\<close>.
\<close>

record link_state =
  is_streaming :: bool
  get_gp :: pyval
  get_gp3 :: pyval

definition not_capturing :: string where
  "not_capturing = ''The eye-tracker is not in capturing mode.''"

text \<open>
  The \<^verbatim>\<open>try\<close> statement shared by \<^verbatim>\<open>sample\<close> and \<^verbatim>\<open>sample3D\<close>: the body builds
  \<^verbatim>\<open>data_dict\<close>, the handler for \<^verbatim>\<open>IndexError\<close> logs and builds the sentinel dictionary,
  and the \<^verbatim>\<open>finally\<close> clause returns \<^verbatim>\<open>data_dict\<close>. After any other exception the
  variable is unbound when \<^verbatim>\<open>finally\<close> reads it, which raises \<^verbatim>\<open>UnboundLocalError\<close>.
\<close>

definition try_data_dict :: "pyval outcome \<Rightarrow> pyval \<Rightarrow> string \<Rightarrow> (pyval \<times> string list) outcome" where
  "try_data_dict body fallback msg =
     (case body of
        Return data_dict \<Rightarrow> Return (data_dict, [])
      | Raise e \<Rightarrow> (if e = IndexError then Return (fallback, [msg]) else Raise UnboundLocalError)
      | Pending \<Rightarrow> Pending)"

definition sample :: "link_state \<Rightarrow> (pyval \<times> string list) outcome" where
  "sample l =
     (if is_streaming l then
        (let data = get_gp l in
         try_data_dict
           (then_do (subscript data ''gp'') (\<lambda>g.
            then_do (subscript data ''ts'') (\<lambda>t.
            then_do (subscript data ''gidx'') (\<lambda>i.
              Return (Dct [(''gp'', g), (''ts'', t), (''gidx'', i)])))))
           (Dct [(''gp'', Lst [Num (-1), Num (-1)]), (''ts'', Num (-1)), (''gidx'', Num (-1))])
           ''No gaze position data available.'')
      else Return (PyNone, [not_capturing]))"

definition sample3D :: "link_state \<Rightarrow> (pyval \<times> string list) outcome" where
  "sample3D l =
     (if is_streaming l then
        (let data = get_gp3 l in
         try_data_dict
           (then_do (subscript data ''gp3'') (\<lambda>g.
            then_do (subscript data ''ts'') (\<lambda>t.
            then_do (subscript data ''gidx'') (\<lambda>i.
              Return (Dct [(''gp3'', g), (''ts'', t), (''gidx'', i)])))))
           (Dct [(''gp3'', Lst [Num (-1), Num (-1), Num (-1)]), (''ts'', Num (-1)),
                 (''gidx'', Num (-1))])
           ''No gaze 3d position data available.'')
      else Return (PyNone, [not_capturing]))"

text \<open>
  \<^verbatim>\<open>eye_position\<close> binds \<^verbatim>\<open>data = self.get_lefteyedata\<close> (or the right eye's), the
  method itself and not its result, and subscripts it inside a \<^verbatim>\<open>try\<close> that handles
  \<^verbatim>\<open>IndexError\<close> only. With \<^verbatim>\<open>eye_used\<close> outside 0, 1, 2 no branch is taken and the
  call returns \<^verbatim>\<open>None\<close>. The binocular branch would go on to compare and average the
  two eyes; its first subscript is again on the method, and what follows it is not
  modelled (the branch for a subscript that returns stands as a \<^verbatim>\<open>TypeError\<close>).
\<close>

definition eye_position :: "int \<Rightarrow> link_state \<Rightarrow> (pyval \<times> string list) outcome" where
  "eye_position eye_used l =
     (if is_streaming l then
        (if eye_used = 0 then
           (case subscript (BoundMethod ''get_lefteyedata'') ''pc'' of
              Return v \<Rightarrow> Return (v, [])
            | Raise e \<Rightarrow>
                (if e = IndexError
                 then Return (Dct [(''pc'', Lst [Num (-1), Num (-1), Num (-1)]),
                                   (''ts'', Num (-1)), (''gidx'', Num (-1))],
                              [''No eye position data available''])
                 else Raise e)
            | Pending \<Rightarrow> Pending)
         else if eye_used = 1 then
           (case subscript (BoundMethod ''get_righteyedata'') ''pc'' of
              Return v \<Rightarrow> Return (v, [])
            | Raise e \<Rightarrow>
                (if e = IndexError
                 then Return (Dct [(''pc'', Lst [Num (-1), Num (-1), Num (-1)]),
                                   (''ts'', Num (-1)), (''gidx'', Num (-1))],
                              [''No eye position data available''])
                 else Raise e)
            | Pending \<Rightarrow> Pending)
         else if eye_used = 2 then
           (case subscript (BoundMethod ''get_lefteyedata'') ''pc'' of
              Return v \<Rightarrow> Raise TypeError
            | Raise e \<Rightarrow>
                (if e = IndexError
                 then Return (Dct [(''pc'', Lst [Num (-1), Num (-1), Num (-1)]),
                                   (''ts'', Num (-1)), (''gidx'', Num (-1))],
                              [''No eye position data available''])
                 else Raise e)
            | Pending \<Rightarrow> Pending)
         else Return (PyNone, []))
      else Return (PyNone, [not_capturing]))"

section \<open>Sample validator and event correlator\<close>

definition unsupported_type :: "string \<Rightarrow> string" where
  "unsupported_type sample_type =
     ''The supplied sample type '' @ sample_type @ '' is not supported.''"

definition is_valid_sample :: "pyval \<Rightarrow> string \<Rightarrow> (bool \<times> string list) outcome" where
  "is_valid_sample smp sample_type =
     (if sample_type = ''gp3'' then
        then_do (subscript smp ''gp3'') (\<lambda>v.
          Return (v \<noteq> Lst [Num (-1), Num (-1), Num (-1)], []))
      else if sample_type = ''gp'' then
        then_do (subscript smp ''gp'') (\<lambda>v.
          Return (v \<noteq> Lst [Num (-1), Num (-1)], []))
      else if sample_type = ''pc'' then
        then_do (subscript smp ''pc'') (\<lambda>v.
          Return (v \<noteq> Lst [Num (-1), Num (-1), Num (-1)], []))
      else Return (True, [unsupported_type sample_type]))"

text \<open>
  \<^verbatim>\<open>all(gaze['gidx'] == gp3['gidx'] == eye['gidx'] for ... in zip(...))\<close>: the chained
  comparison reads the eye sample only when the first two agree, \<^verbatim>\<open>all\<close> stops at the
  first mismatch, and \<^verbatim>\<open>zip\<close> stops at the shortest sequence.
\<close>

fun is_same_event :: "pyval list \<Rightarrow> pyval list \<Rightarrow> pyval list \<Rightarrow> bool outcome" where
  "is_same_event (gaze # gaze_samples) (gp3 # gp3_samples) (eye # eye_samples) =
     (case subscript gaze ''gidx'' of
        Pending \<Rightarrow> Pending
      | Raise e \<Rightarrow> Raise e
      | Return a \<Rightarrow>
          (case subscript gp3 ''gidx'' of
             Pending \<Rightarrow> Pending
           | Raise e \<Rightarrow> Raise e
           | Return b \<Rightarrow>
               (if a \<noteq> b then Return False
                else (case subscript eye ''gidx'' of
                        Pending \<Rightarrow> Pending
                      | Raise e \<Rightarrow> Raise e
                      | Return c \<Rightarrow>
                          (if b \<noteq> c then Return False
                           else is_same_event gaze_samples gp3_samples eye_samples)))))"
| "is_same_event gaze_samples gp3_samples eye_samples = Return True"

text \<open>The sentinel of a kind, in the words of the specification.\<close>

definition sentinel :: "string \<Rightarrow> pyval" where
  "sentinel kind =
     (if kind = ''gp'' then Lst [Num (-1), Num (-1)] else Lst [Num (-1), Num (-1), Num (-1)])"

section \<open>The tracker object\<close>

text \<open>
  The attributes of \<^verbatim>\<open>TobiiGlassesTracker\<close> that the detectors read. The pixel thresholds
  \<^verbatim>\<open>pxfixtresh\<close>, \<^verbatim>\<open>pxdsttresh\<close>, \<^verbatim>\<open>pxspdtresh\<close> and \<^verbatim>\<open>pxacctresh\<close> are read by the
  detectors but assigned nowhere in the file; they are taken as given.
\<close>

record tracker =
  eventdetection :: string
  eye_used :: int
  fixtimetresh :: real
  weightdist :: real
  pxfixtresh :: real
  pxdsttresh :: "real \<times> real"
  pxspdtresh :: real
  pxacctresh :: real
  init_run :: bool
  gaze_samples :: "pyval list"
  gp3_samples :: "pyval list"
  eye_samples :: "pyval list"

text \<open>
  \<^verbatim>\<open>set_detection_type\<close> warns when \<^verbatim>\<open>native\<close> is asked for and sets the mode to
  \<^verbatim>\<open>pygaze\<close> whatever the argument; the constructor calls it.
\<close>

definition set_detection_type :: "string \<Rightarrow> tracker \<Rightarrow> tracker \<times> (string \<times> string \<times> string)" where
  "set_detection_type requested tr =
     (tr\<lparr>eventdetection := ''pygaze''\<rparr>, (''pygaze'', ''pygaze'', ''pygaze''))"

section \<open>Dispersion fixation detector\<close>

text \<open>
  \<^verbatim>\<open>spos = self.sample()\<close> followed by \<^verbatim>\<open>while not self.is_valid_sample(spos, 'gp')\<close>:
  the first sample of the stream that passes the validity test, and the rest of the stream.
\<close>

fun first_valid_gp :: "link_state list \<Rightarrow> (pyval \<times> link_state list) outcome" where
  "first_valid_gp [] = Pending"
| "first_valid_gp (l # ls) =
     (case sample l of
        Pending \<Rightarrow> Pending
      | Raise e \<Rightarrow> Raise e
      | Return (spos, logged) \<Rightarrow>
          (case is_valid_sample spos ''gp'' of
             Pending \<Rightarrow> Pending
           | Raise e \<Rightarrow> Raise e
           | Return (valid, logged') \<Rightarrow>
               (if valid then Return (spos, ls) else first_valid_gp ls)))"

text \<open>\<^verbatim>\<open>npos['gp'][k] - spos['gp'][k]\<close>\<close>

definition gp_diff :: "pyval \<Rightarrow> pyval \<Rightarrow> int \<Rightarrow> real outcome" where
  "gp_diff npos spos k =
     then_do (subscript npos ''gp'') (\<lambda>ng.
     then_do (index ng k) (\<lambda>n.
     then_do (subscript spos ''gp'') (\<lambda>sg.
     then_do (index sg k) (\<lambda>s. py_sub n s))))"

text \<open>\<^verbatim>\<open>(npos['gp'][0]-spos['gp'][0])**2 + (npos['gp'][1]-spos['gp'][1])**2\<close>\<close>

definition sq_deviation :: "pyval \<Rightarrow> pyval \<Rightarrow> real outcome" where
  "sq_deviation npos spos =
     then_do (gp_diff npos spos 0) (\<lambda>dx.
     then_do (gp_diff npos spos 1) (\<lambda>dy. Return (dx\<^sup>2 + dy\<^sup>2)))"





text \<open>
  The tracker as \<^verbatim>\<open>__init__\<close> leaves it: mode \<^verbatim>\<open>pygaze\<close>, left eye, a fixation time
  threshold of 100 ms, a weighted distance of 10, empty sample windows; the pixel
  thresholds are the arguments.
\<close>

definition init_tracker :: "real \<Rightarrow> real \<times> real \<Rightarrow> real \<Rightarrow> real \<Rightarrow> tracker" where
  "init_tracker fixpx dstpx spdpx accpx =
     \<lparr>eventdetection = ''pygaze'', eye_used = 0, fixtimetresh = 100, weightdist = 10,
      pxfixtresh = fixpx, pxdsttresh = dstpx, pxspdtresh = spdpx, pxacctresh = accpx,
      init_run = True, gaze_samples = [], gp3_samples = [], eye_samples = []\<rparr>"

section \<open>Well-formed gaze streams\<close>

text \<open>
  A 2D gaze point \<open>(x, y, ts, gidx)\<close> as the link delivers it while streaming, and the
  sample dictionary that \<open>sample\<close> builds from it. A point is the sentinel when both
  coordinates are -1; it is within the dispersion threshold of an anchor when the squared
  distance does not exceed \<open>pxfixtresh\<close> squared.
\<close>

type_synonym gaze_point = "real \<times> real \<times> real \<times> real"


definition gp_link :: "gaze_point \<Rightarrow> link_state" where
  "gp_link p = (case p of (x, y, t, g) \<Rightarrow>
     \<lparr>is_streaming = True,
      get_gp = Dct [(''gp'', Lst [Num x, Num y]), (''ts'', Num t), (''gidx'', Num g)],
      get_gp3 = PyNone\<rparr>)"




section \<open>Saccade detector\<close>

text \<open>
  One pass of the \<^verbatim>\<open>while not saccadic\<close> loop of \<^verbatim>\<open>wait_for_saccade_start\<close>, after
  \<^verbatim>\<open>newpos\<close> and \<^verbatim>\<open>t1\<close> have been read: the start position when the pass declares a
  saccade, and the values of \<^verbatim>\<open>t0\<close> and \<^verbatim>\<open>v0\<close> after the pass. They are rolled forward
  only inside the weighted-distance branch. Divisions are those of floats.
\<close>

definition saccade_start_pass ::
  "tracker \<Rightarrow> pyval \<Rightarrow> real \<Rightarrow> real \<Rightarrow> pyval \<Rightarrow> real \<Rightarrow> (pyval option \<times> real \<times> real) outcome" where
  "saccade_start_pass tr prevpos t0 v0 newpos t1 =
     then_do (is_valid_sample newpos ''gp'') (\<lambda>(valid, logged).
       if \<not> valid then Return (None, t0, v0)
       else
         then_do (subscript newpos ''gp'') (\<lambda>ng.
         then_do (subscript prevpos ''gp'') (\<lambda>pg.
           if ng = pg then Return (None, t0, v0)
           else
             then_do (gp_diff newpos prevpos 0) (\<lambda>sx.
             then_do (gp_diff newpos prevpos 1) (\<lambda>sy.
             then_do (py_div sx (fst (pxdsttresh tr))) (\<lambda>wx.
             then_do (py_div sy (snd (pxdsttresh tr))) (\<lambda>wy.
               if wx\<^sup>2 + wy\<^sup>2 > weightdist tr then
                 then_do (py_div (sqrt (sx\<^sup>2 + sy\<^sup>2)) (t1 - t0)) (\<lambda>v1.
                 then_do (py_div (v1 - v0) (t1 - t0)) (\<lambda>a.
                   if v1 > pxspdtresh tr \<or> a > pxacctresh tr then
                     then_do (subscript prevpos ''gp'') (\<lambda>pg'.
                     then_do (slice_all pg') (\<lambda>spos. Return (Some spos, t1, v1)))
                   else Return (None, t1, v1)))
               else Return (None, t0, v0))))))))"

text \<open>
  The loop: every pass reads a sample and then the clock, and ends with
  \<^verbatim>\<open>prevpos = newpos\<close> whether or not the sample was valid. A pass that declares the
  saccade reads the clock once more for \<^verbatim>\<open>stime\<close>.
\<close>

fun saccade_start_loop ::
  "tracker \<Rightarrow> pyval \<Rightarrow> real \<Rightarrow> real \<Rightarrow> link_state list \<Rightarrow> real list
     \<Rightarrow> ((real \<times> pyval) \<times> link_state list \<times> real list) outcome" where
  "saccade_start_loop tr prevpos t0 v0 [] clk = Pending"
| "saccade_start_loop tr prevpos t0 v0 (l # ls) clk =
     (case sample l of
        Pending \<Rightarrow> Pending
      | Raise e \<Rightarrow> Raise e
      | Return (newpos, logged) \<Rightarrow>
          (case clk of
             [] \<Rightarrow> Pending
           | t1 # clk1 \<Rightarrow>
               (case saccade_start_pass tr prevpos t0 v0 newpos t1 of
                  Pending \<Rightarrow> Pending
                | Raise e \<Rightarrow> Raise e
                | Return (found, t0', v0') \<Rightarrow>
                    (case found of
                       None \<Rightarrow> saccade_start_loop tr newpos t0' v0' ls clk1
                     | Some spos \<Rightarrow>
                         (case clk1 of
                            [] \<Rightarrow> Pending
                          | stime # clk2 \<Rightarrow> Return ((stime, spos), ls, clk2))))))"

text \<open>
  \<^verbatim>\<open>wait_for_saccade_start\<close>. In the source the whole detection, down to
  \<^verbatim>\<open>return stime, spos\<close>, is indented under \<^verbatim>\<open>if self.eventdetection == 'native'\<close>, after
  the warning. In any other mode the function body ends without a \<^verbatim>\<open>return\<close> and the
  call gives \<^verbatim>\<open>None\<close>, here the result \<open>None\<close>, having read no sample and no clock.
\<close>

definition wait_for_saccade_start ::
  "tracker \<Rightarrow> link_state list \<Rightarrow> real list
     \<Rightarrow> ((real \<times> pyval) option \<times> link_state list \<times> real list) outcome" where
  "wait_for_saccade_start tr ls clk =
     (if eventdetection tr = ''native'' then
        (case first_valid_gp ls of
           Pending \<Rightarrow> Pending
         | Raise e \<Rightarrow> Raise e
         | Return (newpos, ls1) \<Rightarrow>
             (case clk of
                [] \<Rightarrow> Pending
              | t0 # clk1 \<Rightarrow>
                  (case saccade_start_loop tr newpos t0 0 ls1 clk1 of
                     Pending \<Rightarrow> Pending
                   | Raise e \<Rightarrow> Raise e
                   | Return (r, ls2, clk2) \<Rightarrow> Return (Some r, ls2, clk2))))
      else Return (None, ls, clk))"

text \<open>One pass of the \<^verbatim>\<open>while saccadic\<close> loop of \<^verbatim>\<open>wait_for_saccade_end\<close>.\<close>

definition saccade_end_pass ::
  "tracker \<Rightarrow> pyval \<Rightarrow> real \<Rightarrow> real \<Rightarrow> pyval \<Rightarrow> real \<Rightarrow> (pyval option \<times> real \<times> real) outcome" where
  "saccade_end_pass tr prevpos t0 v0 newpos t1 =
     then_do (is_valid_sample newpos ''gp'') (\<lambda>(valid, logged).
       if \<not> valid then Return (None, t0, v0)
       else
         then_do (subscript newpos ''gp'') (\<lambda>ng.
         then_do (subscript prevpos ''gp'') (\<lambda>pg.
           if ng = pg then Return (None, t0, v0)
           else
             then_do (sq_deviation newpos prevpos) (\<lambda>d.
             then_do (py_div (sqrt d) (t1 - t0)) (\<lambda>v1.
             then_do (py_div (v1 - v0) (t1 - t0)) (\<lambda>a.
               if v1 < pxspdtresh tr \<and> (a > -1 * pxacctresh tr \<and> a < 0) then
                 then_do (subscript newpos ''gp'') (\<lambda>ng'.
                 then_do (slice_all ng') (\<lambda>epos. Return (Some epos, t1, v1)))
               else Return (None, t1, v1)))))))"

fun saccade_end_loop ::
  "tracker \<Rightarrow> pyval \<Rightarrow> pyval \<Rightarrow> real \<Rightarrow> real \<Rightarrow> link_state list \<Rightarrow> real list
     \<Rightarrow> ((real \<times> pyval \<times> pyval) \<times> link_state list \<times> real list) outcome" where
  "saccade_end_loop tr spos prevpos t0 v0 [] clk = Pending"
| "saccade_end_loop tr spos prevpos t0 v0 (l # ls) clk =
     (case sample l of
        Pending \<Rightarrow> Pending
      | Raise e \<Rightarrow> Raise e
      | Return (newpos, logged) \<Rightarrow>
          (case clk of
             [] \<Rightarrow> Pending
           | t1 # clk1 \<Rightarrow>
               (case saccade_end_pass tr prevpos t0 v0 newpos t1 of
                  Pending \<Rightarrow> Pending
                | Raise e \<Rightarrow> Raise e
                | Return (found, t0', v0') \<Rightarrow>
                    (case found of
                       None \<Rightarrow> saccade_end_loop tr spos newpos t0' v0' ls clk1
                     | Some epos \<Rightarrow>
                         (case clk1 of
                            [] \<Rightarrow> Pending
                          | etime # clk2 \<Rightarrow> Return ((etime, spos, epos), ls, clk2))))))"

text \<open>
  \<^verbatim>\<open>wait_for_saccade_end\<close> unpacks the result of \<^verbatim>\<open>wait_for_saccade_start\<close> into
  \<^verbatim>\<open>t0, spos\<close>, which raises \<^verbatim>\<open>TypeError\<close> on \<^verbatim>\<open>None\<close>; it then reads the first valid
  sample and the clock and computes the first velocity from \<^verbatim>\<open>spos['gp']\<close>, although
  \<^verbatim>\<open>spos\<close> is the coordinate list that the start detection returned.
\<close>

definition wait_for_saccade_end ::
  "tracker \<Rightarrow> link_state list \<Rightarrow> real list
     \<Rightarrow> ((real \<times> pyval \<times> pyval) \<times> link_state list \<times> real list) outcome" where
  "wait_for_saccade_end tr ls clk =
     (case wait_for_saccade_start tr ls clk of
        Pending \<Rightarrow> Pending
      | Raise e \<Rightarrow> Raise e
      | Return (r, ls1, clk1) \<Rightarrow>
          (case r of
             None \<Rightarrow> Raise TypeError
           | Some (t0, spos) \<Rightarrow>
               (case first_valid_gp ls1 of
                  Pending \<Rightarrow> Pending
                | Raise e \<Rightarrow> Raise e
                | Return (prevpos, ls2) \<Rightarrow>
                    (case clk1 of
                       [] \<Rightarrow> Pending
                     | t1 # clk2 \<Rightarrow>
                         then_do (sq_deviation prevpos spos) (\<lambda>d.
                         then_do (py_div (sqrt d) (t1 - t0)) (\<lambda>v0.
                           saccade_end_loop tr spos prevpos t0 v0 ls2 clk2))))))"

section \<open>Angular velocity\<close>

text \<open>
  \<^verbatim>\<open>np.array\<close> on a flat list of numbers, the shape the tracker delivers, or on one number
  (a scalar, which broadcasts); other shapes are outside the model and raise here.
  Subtraction broadcasts a vector of length one and raises \<^verbatim>\<open>ValueError\<close> on other
  mismatches of length.
\<close>

fun the_num :: "pyval \<Rightarrow> real option" where
  "the_num (Num x) = Some x"
| "the_num v = None"

fun np_array :: "pyval \<Rightarrow> real list outcome" where
  "np_array (Lst xs) =
     (if list_all (\<lambda>x. the_num x \<noteq> None) xs then Return (map (\<lambda>x. the (the_num x)) xs)
      else Raise TypeError)"
| "np_array (Num x) = Return [x]"
| "np_array v = Raise TypeError"

definition np_sub :: "real list \<Rightarrow> real list \<Rightarrow> real list outcome" where
  "np_sub xs ys =
     (if length xs = length ys then Return (map (\<lambda>(x, y). x - y) (zip xs ys))
      else if length xs = 1 then Return (map (\<lambda>y. hd xs - y) ys)
      else if length ys = 1 then Return (map (\<lambda>x. x - hd ys) xs)
      else Raise ValueError)"

definition np_linalg_norm :: "real list \<Rightarrow> real" where
  "np_linalg_norm xs = sqrt (sum_list (map (\<lambda>x. x\<^sup>2) xs))"

definition np_degrees :: "real \<Rightarrow> real" where
  "np_degrees x = x * 180 / pi"

text \<open>
  Attribute lookup in the module \<^verbatim>\<open>math\<close>, for its functions of one float. The absolute
  value of a float is \<^verbatim>\<open>math.fabs\<close>; the module has no attribute \<^verbatim>\<open>abs\<close>, which is a
  builtin.
\<close>

definition math_getattr :: "string \<Rightarrow> (real \<Rightarrow> real) outcome" where
  "math_getattr name =
     (if name = ''fabs'' then Return abs
      else if name = ''sqrt'' then Return sqrt
      else if name = ''degrees'' then Return np_degrees
      else if name = ''acos'' then Return arccos
      else if name = ''cos'' then Return cos
      else if name = ''sin'' then Return sin
      else if name = ''exp'' then Return exp
      else Raise AttributeError)"

text \<open>\<^verbatim>\<open>np.array(xs[i]['key']) - np.array(ys[j]['key2'])\<close>\<close>

definition vec_between :: "pyval list \<Rightarrow> int \<Rightarrow> string \<Rightarrow> pyval list \<Rightarrow> int \<Rightarrow> string \<Rightarrow> real list outcome" where
  "vec_between xs i kx ys j ky =
     then_do (index (Lst xs) i) (\<lambda>x.
     then_do (subscript x kx) (\<lambda>xv.
     then_do (np_array xv) (\<lambda>xa.
     then_do (index (Lst ys) j) (\<lambda>y.
     then_do (subscript y ky) (\<lambda>yv.
     then_do (np_array yv) (\<lambda>ya. np_sub xa ya))))))"

text \<open>
  \<^verbatim>\<open>calculate_angular_velocity\<close>. The arithmetic on numpy floats does not raise (a zero
  divisor gives \<^verbatim>\<open>inf\<close> or \<^verbatim>\<open>nan\<close> there, which the reals do not have). The last line
  calls \<^verbatim>\<open>math.abs\<close>; the callee is looked up before its argument is evaluated.
\<close>

definition calculate_angular_velocity :: "pyval list \<Rightarrow> pyval list \<Rightarrow> real outcome" where
  "calculate_angular_velocity gp3s eyes =
     then_do (vec_between gp3s 0 ''gp3'' eyes 0 ''pc'') (\<lambda>a.
     then_do (vec_between gp3s (-1) ''gp3'' eyes (-1) ''pc'') (\<lambda>b.
     then_do (vec_between gp3s (-1) ''gp3'' gp3s 0 ''gp3'') (\<lambda>c.
       (let a = np_linalg_norm a; b = np_linalg_norm b; c = np_linalg_norm c;
            angle = np_degrees (arccos ((a\<^sup>2 + b\<^sup>2 - c\<^sup>2) / (2 * a * b)))
        in
         then_do (index (Lst gp3s) (-1)) (\<lambda>g1.
         then_do (subscript g1 ''ts'') (\<lambda>ts1.
         then_do (index (Lst gp3s) 0) (\<lambda>g0.
         then_do (subscript g0 ''ts'') (\<lambda>ts0.
         then_do (py_sub ts1 ts0) (\<lambda>time_diff.
         then_do (math_getattr ''abs'') (\<lambda>math_abs.
           Return (math_abs (angle / time_diff))))))))))))"

text \<open>
  The value that the specification gives for the angular velocity, from the three vectors
  \<open>a\<close>, \<open>b\<close>, \<open>c\<close> and the difference of the timestamps.
\<close>

definition angular_velocity_spec :: "real list \<Rightarrow> real list \<Rightarrow> real list \<Rightarrow> real \<Rightarrow> real" where
  "angular_velocity_spec a b c time_diff =
     \<bar>np_degrees (arccos (((np_linalg_norm a)\<^sup>2 + (np_linalg_norm b)\<^sup>2 - (np_linalg_norm c)\<^sup>2)
         / (2 * np_linalg_norm a * np_linalg_norm b)))\<bar> / time_diff"

section \<open>Experimental fixation detector: the sample windows\<close>

text \<open>
  The three fetches \<^verbatim>\<open>self.sample()\<close>, \<^verbatim>\<open>self.sample3D()\<close>, \<^verbatim>\<open>self.eye_position()\<close>
  of one round, each on its own snapshot of the link.
\<close>

fun fetch_samples ::
  "int \<Rightarrow> link_state list \<Rightarrow> ((pyval \<times> pyval \<times> pyval) \<times> link_state list) outcome" where
  "fetch_samples eye (l1 # l2 # l3 # ls) =
     then_do (sample l1) (\<lambda>(gaze_pos, logged1).
     then_do (sample3D l2) (\<lambda>(spos, logged2).
     then_do (eye_position eye l3) (\<lambda>(eye_pos, logged3).
       Return ((gaze_pos, spos, eye_pos), ls))))"
| "fetch_samples eye [l1, l2] =
     then_do (sample l1) (\<lambda>(gaze_pos, logged1).
     then_do (sample3D l2) (\<lambda>(spos, logged2). Pending))"
| "fetch_samples eye [l1] = then_do (sample l1) (\<lambda>(gaze_pos, logged1). Pending)"
| "fetch_samples eye [] = Pending"

text \<open>
  The condition of the retry loop,
  \<^verbatim>\<open>not is_valid_sample(gaze_pos, 'gp') and not is_valid_sample(spos, 'gp3') and not
  is_valid_sample(eye_position, 'pc')\<close>, with the short circuit of \<^verbatim>\<open>and\<close>: a later sample
  is tested only when the earlier ones are invalid.
\<close>

definition retry_fetch :: "pyval \<Rightarrow> pyval \<Rightarrow> pyval \<Rightarrow> bool outcome" where
  "retry_fetch gaze_pos spos eye_pos =
     then_do (is_valid_sample gaze_pos ''gp'') (\<lambda>(v1, logged1).
       if v1 then Return False
       else
         then_do (is_valid_sample spos ''gp3'') (\<lambda>(v2, logged2).
           if v2 then Return False
           else
             then_do (is_valid_sample eye_pos ''pc'') (\<lambda>(v3, logged3).
               Return (\<not> v3))))"

text \<open>\<^verbatim>\<open>self.gaze_samples.append(gaze_pos)\<close> and the two appends that follow it.\<close>

definition append_samples :: "tracker \<Rightarrow> pyval \<Rightarrow> pyval \<Rightarrow> pyval \<Rightarrow> tracker" where
  "append_samples tr gaze_pos spos eye_pos =
     tr\<lparr>gaze_samples := gaze_samples tr @ [gaze_pos],
        gp3_samples := gp3_samples tr @ [spos],
        eye_samples := eye_samples tr @ [eye_pos]\<rparr>"

text \<open>
  What the loop does with the three values of a round: \<open>None\<close> when the condition holds
  and the round is fetched again, otherwise the tracker with the three values appended.
\<close>

definition accept_fetched :: "tracker \<Rightarrow> pyval \<Rightarrow> pyval \<Rightarrow> pyval \<Rightarrow> tracker option outcome" where
  "accept_fetched tr gaze_pos spos eye_pos =
     then_do (retry_fetch gaze_pos spos eye_pos) (\<lambda>again.
       if again then Return None else Return (Some (append_samples tr gaze_pos spos eye_pos)))"

text \<open>Fetch, retry while the condition holds, append: lines 1132 to 1147 and 1251 to 1266.\<close>

fun fetch_and_append :: "tracker \<Rightarrow> link_state list \<Rightarrow> (tracker \<times> link_state list) outcome" where
  "fetch_and_append tr (l1 # l2 # l3 # ls) =
     (case fetch_samples (eye_used tr) (l1 # l2 # l3 # ls) of
        Pending \<Rightarrow> Pending
      | Raise e \<Rightarrow> Raise e
      | Return ((gaze_pos, spos, eye_pos), rest) \<Rightarrow>
          (case accept_fetched tr gaze_pos spos eye_pos of
             Pending \<Rightarrow> Pending
           | Raise e \<Rightarrow> Raise e
           | Return None \<Rightarrow> fetch_and_append tr ls
           | Return (Some tr') \<Rightarrow> Return (tr', ls)))"
| "fetch_and_append tr ls =
     (case fetch_samples (eye_used tr) ls of
        Pending \<Rightarrow> Pending
      | Raise e \<Rightarrow> Raise e
      | Return r \<Rightarrow> Pending)"

text \<open>\<^verbatim>\<open>self.gaze_samples = self.gaze_samples[1:]\<close> and the two slices that follow it.\<close>

definition drop_oldest :: "tracker \<Rightarrow> tracker" where
  "drop_oldest tr =
     tr\<lparr>gaze_samples := drop 1 (gaze_samples tr),
        gp3_samples := drop 1 (gp3_samples tr),
        eye_samples := drop 1 (eye_samples tr)\<rparr>"

text \<open>
  The fill loop of the first run, \<^verbatim>\<open>while len(gaze_samples) < 3 and len(gp3_samples) < 3
  and len(eye_samples) < 3\<close>. Every pass appends one sample to each window, so that three
  passes at most are made; the first argument counts them down.
\<close>

fun fill_windows :: "nat \<Rightarrow> tracker \<Rightarrow> link_state list \<Rightarrow> (tracker \<times> link_state list) outcome" where
  "fill_windows n tr ls =
     (if length (gaze_samples tr) < 3 \<and> length (gp3_samples tr) < 3 \<and> length (eye_samples tr) < 3
      then
        (case n of
           0 \<Rightarrow> Pending
         | Suc m \<Rightarrow>
             (case fetch_and_append (tr\<lparr>init_run := False\<rparr>) ls of
                Pending \<Rightarrow> Pending
              | Raise e \<Rightarrow> Raise e
              | Return (tr', ls') \<Rightarrow> fill_windows m tr' ls'))
      else Return (tr, ls))"

text \<open>
  Names bound at module level. \<^verbatim>\<open>is_same_event\<close> is defined as a method of the class
  but called as a global function, which raises \<^verbatim>\<open>NameError\<close>.
\<close>

definition module_globals :: "string list" where
  "module_globals = [''calculate_angular_velocity'', ''TobiiGlassesTracker'',
     ''TobiiGlassesController'', ''BaseEyeTracker'', ''copy'', ''math'', ''np'', ''clock'',
     ''log'', ''settings'']"

definition lookup_global :: "string \<Rightarrow> unit outcome" where
  "lookup_global name = (if name \<in> set module_globals then Return () else Raise NameError)"

text \<open>
  The branch \<^verbatim>\<open>experimental\<close> of \<^verbatim>\<open>wait_for_fixation_start\<close>: one update of the windows
  and then the call of \<^verbatim>\<open>is_same_event\<close>, where the lookup of the name raises. What
  follows the call in the source (the velocity test and the medians) is reached on no run
  and is not modelled: the continuation after a lookup that succeeds stands as
  \<open>Pending\<close>. The experimental branch of \<^verbatim>\<open>wait_for_fixation_end\<close> is modelled the
  same way.
\<close>

definition wait_for_fixation_start_experimental ::
  "tracker \<Rightarrow> link_state list \<Rightarrow> (pyval \<times> tracker \<times> link_state list) outcome" where
  "wait_for_fixation_start_experimental tr ls =
     (case (if init_run tr then fill_windows 3 tr ls else fetch_and_append (drop_oldest tr) ls) of
        Pending \<Rightarrow> Pending
      | Raise e \<Rightarrow> Raise e
      | Return (tr', ls') \<Rightarrow> then_do (lookup_global ''is_same_event'') (\<lambda>u. Pending))"

definition wait_for_fixation_end_experimental ::
  "tracker \<Rightarrow> link_state list \<Rightarrow> (pyval \<times> tracker \<times> link_state list) outcome" where
  "wait_for_fixation_end_experimental tr ls =
     (case wait_for_fixation_start_experimental tr ls of
        Pending \<Rightarrow> Pending
      | Raise e \<Rightarrow> Raise e
      | Return (data, tr1, ls1) \<Rightarrow>
          (case fetch_and_append (drop_oldest tr1) ls1 of
             Pending \<Rightarrow> Pending
           | Raise e \<Rightarrow> Raise e
           | Return (tr2, ls2) \<Rightarrow> then_do (lookup_global ''is_same_event'') (\<lambda>u. Pending)))"

section \<open>Recording\<close>

text \<open>
  The session state that \<^verbatim>\<open>start_recording\<close> and \<^verbatim>\<open>stop_recording\<close> read and write,
  with the calls made to the controller and the messages logged, in order. The identifiers
  are Python values, \<open>PyNone\<close> until set. The controller's answers are given: what
  \<^verbatim>\<open>create_recording\<close> returns and whether each call returns or raises.
\<close>

datatype link_call =
    CreateRecording pyval
  | StartRecording pyval
  | StopRecording pyval
  | WaitUntilRecordingIsDone pyval

record session =
  current_recording_id :: pyval
  current_participant_id :: pyval
  current_project_id :: pyval
  link_calls :: "link_call list"
  log_error :: "string list"
  log_debug :: "string list"

record controller =
  create_recording :: "pyval \<Rightarrow> pyval outcome"
  link_start_recording :: "pyval \<Rightarrow> unit outcome"
  link_stop_recording :: "pyval \<Rightarrow> unit outcome"
  wait_until_recording_is_done :: "pyval \<Rightarrow> pyval outcome"

definition already_recording :: string where
  "already_recording = ''The Tobii Pro Glasses is already recording!''"

definition no_recording :: string where
  "no_recording = ''There is no recordings started!''"

definition start_failed :: string where
  "start_failed = ''Error in libtobiiproglasses.TobiiProGlassesController.start_recording: failed to start recording''"

text \<open>
  \<^verbatim>\<open>start_recording\<close>: the state after the call and its outcome. The identifier is
  assigned before the \<^verbatim>\<open>try\<close>; inside it, a failure of the controller or of the string
  concatenation of the debug message (an identifier that is no string) is caught by the
  bare \<^verbatim>\<open>except\<close> and raised again as \<^verbatim>\<open>Exception\<close>.
\<close>

definition start_recording :: "controller \<Rightarrow> session \<Rightarrow> session \<times> unit outcome" where
  "start_recording tg s =
     (if current_recording_id s = PyNone then
        (let s1 = s\<lparr>link_calls := link_calls s @ [CreateRecording (current_participant_id s)]\<rparr>
         in case create_recording tg (current_participant_id s) of
              Pending \<Rightarrow> (s1, Pending)
            | Raise e \<Rightarrow> (s1, Raise e)
            | Return rid \<Rightarrow>
                (let s2 = s1\<lparr>current_recording_id := rid,
                               link_calls := link_calls s1 @ [StartRecording rid]\<rparr>
                 in case link_start_recording tg rid of
                      Pending \<Rightarrow> (s2, Pending)
                    | Raise e \<Rightarrow> (s2, Raise (PyException start_failed))
                    | Return u \<Rightarrow>
                        (case rid of
                           Str r \<Rightarrow>
                             (s2\<lparr>log_debug := log_debug s2 @ [''Recording '' @ r @ '' started!'']\<rparr>,
                              Return ())
                         | _ \<Rightarrow> (s2, Raise (PyException start_failed)))))
      else (s\<lparr>log_error := log_error s @ [already_recording]\<rparr>, Return ()))"

definition stop_recording :: "controller \<Rightarrow> session \<Rightarrow> session \<times> unit outcome" where
  "stop_recording tg s =
     (if current_recording_id s = PyNone then
        (s\<lparr>log_error := log_error s @ [no_recording]\<rparr>, Return ())
      else
        (let rid = current_recording_id s;
             s1 = s\<lparr>link_calls := link_calls s @ [StopRecording rid]\<rparr>
         in case link_stop_recording tg rid of
              Pending \<Rightarrow> (s1, Pending)
            | Raise e \<Rightarrow> (s1, Raise e)
            | Return u \<Rightarrow>
                (let s2 = s1\<lparr>link_calls := link_calls s1 @ [WaitUntilRecordingIsDone rid]\<rparr>
                 in case wait_until_recording_is_done tg rid of
                      Pending \<Rightarrow> (s2, Pending)
                    | Raise e \<Rightarrow> (s2, Raise e)
                    | Return res \<Rightarrow> (s2\<lparr>current_recording_id := PyNone\<rparr>, Return ()))))"

section \<open>Properties\<close>

lemma then_do_Return [simp]: "then_do (Return x) f = f x"
  by (simp add: then_do_def)

lemma then_do_Raise [simp]: "then_do (Raise e) f = Raise e"
  by (simp add: then_do_def)

lemma then_do_Pending [simp]: "then_do Pending f = Pending"
  by (simp add: then_do_def)

text \<open>
  C7. For a sample that has the coordinate vector of its kind, with the kind one of gp,
  gp3 and pc, \<open>is_valid_sample\<close> returns False exactly when the vector equals the
  sentinel of the kind, and True for every other vector, logging nothing; for any other
  kind it logs the error and returns True.
\<close>

theorem is_valid_sample_sentinel:
  "(kind \<in> {''gp'', ''gp3'', ''pc''} \<and> subscript smp kind = Return v \<longrightarrow>
      is_valid_sample smp kind = Return (v \<noteq> sentinel kind, []))
   \<and> (kind \<notin> {''gp'', ''gp3'', ''pc''} \<longrightarrow>
      is_valid_sample smp kind = Return (True, [unsupported_type kind]))"
  by (auto simp: is_valid_sample_def sentinel_def)

theorem is_valid_sample_sentinel_witness:
  "is_valid_sample (Dct [(''gp'', Lst [Num (-1), Num (-1)]), (''ts'', Num (-1)), (''gidx'', Num (-1))]) ''gp''
     = Return (False, [])
   \<and> is_valid_sample (Dct [(''gp3'', Lst [Num 3, Num (-1), Num 250]), (''ts'', Num 8), (''gidx'', Num 2)]) ''gp3''
     = Return (True, [])
   \<and> is_valid_sample (Dct [(''pc'', Lst [Num (-1), Num (-1), Num (-1)])]) ''pd''
     = Return (True, [''The supplied sample type pd is not supported.''])"
  using is_valid_sample_sentinel
    [of "''gp''" "Dct [(''gp'', Lst [Num (-1), Num (-1)]), (''ts'', Num (-1)), (''gidx'', Num (-1))]"
        "Lst [Num (-1), Num (-1)]"]
    is_valid_sample_sentinel
    [of "''gp3''" "Dct [(''gp3'', Lst [Num 3, Num (-1), Num 250]), (''ts'', Num 8), (''gidx'', Num 2)]"
        "Lst [Num 3, Num (-1), Num 250]"]
    is_valid_sample_sentinel
    [of "''pd''" "Dct [(''pc'', Lst [Num (-1), Num (-1), Num (-1)])]"]
  by (simp add: sentinel_def unsupported_type_def)


lemma is_same_event_step:
  "subscript g ''gidx'' = Return a \<Longrightarrow> subscript p ''gidx'' = Return b \<Longrightarrow>
   subscript e ''gidx'' = Return c \<Longrightarrow>
   is_same_event (g # gs) (p # ps) (e # es) =
     (if a = b \<and> b = c then is_same_event gs ps es else Return False)"
  by simp

text \<open>
  C8. For three sequences of the same length whose samples all carry a gidx,
  \<open>is_same_event\<close> returns True exactly when at every index the three gidx values are
  pairwise equal, so that one mismatch at any index makes it False; on empty sequences it
  returns True.
\<close>

theorem is_same_event_pairwise:
  assumes "length gazes = length gp3s"
    and "length gp3s = length eyes"
    and "\<forall>s \<in> set gazes \<union> set gp3s \<union> set eyes.
           \<exists>v. subscript s ''gidx'' = Return v"
  shows "is_same_event gazes gp3s eyes =
           Return (\<forall>i < length gazes.
              subscript (gazes ! i) ''gidx'' = subscript (gp3s ! i) ''gidx''
            \<and> subscript (gp3s ! i) ''gidx'' = subscript (eyes ! i) ''gidx''
            \<and> subscript (gazes ! i) ''gidx'' = subscript (eyes ! i) ''gidx'')
         \<and> is_same_event [] [] [] = Return True"
  using assms
proof (induction gazes gp3s eyes rule: list_induct3)
  case Nil
  then show ?case by simp
next
  case (Cons g gs p ps e es)
  obtain a b c where abc: "subscript g ''gidx'' = Return a" "subscript p ''gidx'' = Return b"
    "subscript e ''gidx'' = Return c"
    using Cons.prems by auto
  have ih: "is_same_event gs ps es =
           Return (\<forall>i < length gs.
              subscript (gs ! i) ''gidx'' = subscript (ps ! i) ''gidx''
            \<and> subscript (ps ! i) ''gidx'' = subscript (es ! i) ''gidx''
            \<and> subscript (gs ! i) ''gidx'' = subscript (es ! i) ''gidx'')"
    using Cons.IH Cons.prems by simp
  show ?case
    unfolding is_same_event_step [OF abc] ih
    using abc by (auto simp: All_less_Suc2)
qed

theorem is_same_event_pairwise_witness:
  "is_same_event
     [Dct [(''gp'', Lst [Num 1, Num 2]), (''ts'', Num 10), (''gidx'', Num 4)],
      Dct [(''gp'', Lst [Num 1, Num 3]), (''ts'', Num 20), (''gidx'', Num 5)]]
     [Dct [(''gp3'', Lst [Num 1, Num 2, Num 9]), (''ts'', Num 10), (''gidx'', Num 4)],
      Dct [(''gp3'', Lst [Num 1, Num 3, Num 9]), (''ts'', Num 20), (''gidx'', Num 5)]]
     [Dct [(''pc'', Lst [Num 0, Num 0, Num 0]), (''ts'', Num 10), (''gidx'', Num 4)],
      Dct [(''pc'', Lst [Num 0, Num 0, Num 0]), (''ts'', Num 20), (''gidx'', Num 6)]]
   = Return False"
  using is_same_event_pairwise
    [of "[Dct [(''gp'', Lst [Num 1, Num 2]), (''ts'', Num 10), (''gidx'', Num 4)],
          Dct [(''gp'', Lst [Num 1, Num 3]), (''ts'', Num 20), (''gidx'', Num 5)]]"
        "[Dct [(''gp3'', Lst [Num 1, Num 2, Num 9]), (''ts'', Num 10), (''gidx'', Num 4)],
          Dct [(''gp3'', Lst [Num 1, Num 3, Num 9]), (''ts'', Num 20), (''gidx'', Num 5)]]"
        "[Dct [(''pc'', Lst [Num 0, Num 0, Num 0]), (''ts'', Num 10), (''gidx'', Num 4)],
          Dct [(''pc'', Lst [Num 0, Num 0, Num 0]), (''ts'', Num 20), (''gidx'', Num 6)]]"]
  by simp




















lemma then_do_eq_Return:
  "then_do m f = Return y \<longleftrightarrow> (\<exists>x. m = Return x \<and> f x = Return y)"
  by (cases m) (simp_all add: then_do_def)

lemma wait_for_saccade_start_not_native:
  "eventdetection tr \<noteq> ''native'' \<Longrightarrow> wait_for_saccade_start tr ls clk = Return (None, ls, clk)"
  by (simp add: wait_for_saccade_start_def)

lemma set_detection_type_pygaze:
  "eventdetection (fst (set_detection_type requested tr)) = ''pygaze''"
  by (simp add: set_detection_type_def)

text \<open>
  C2. In mode \<open>pygaze\<close>, the only mode \<open>set_detection_type\<close> leaves, the call
  \<open>wait_for_saccade_start\<close> returns \<open>None\<close> at once and reads neither a sample nor the
  clock, also on a stream that holds a jump of 200 pixels within one sample period: no
  pair \<open>(stime, spos)\<close> is returned. The same stream in mode \<open>native\<close> gives the pair
  with the position before the jump, as \<open>wait_for_saccade_start_native_run\<close> shows.
\<close>

theorem wait_for_saccade_start_pygaze_returns_None:
  "wait_for_saccade_start (init_tracker 50 (50, 50) 1 1)
     (map gp_link [(100, 100, 1, 7), (100, 100, 2, 7), (300, 100, 3, 7)]) [0, 10, 20, 21]
   = Return (None, map gp_link [(100, 100, 1, 7), (100, 100, 2, 7), (300, 100, 3, 7)], [0, 10, 20, 21])"
  by (simp add: wait_for_saccade_start_def init_tracker_def)

lemma sqrt_40000: "sqrt 40000 = 200"
  using real_sqrt_abs [of 200] by simp

lemma wait_for_saccade_start_native_run:
  "wait_for_saccade_start ((init_tracker 50 (50, 50) 1 1)\<lparr>eventdetection := ''native''\<rparr>)
     (map gp_link [(100, 100, 1, 7), (100, 100, 2, 7), (300, 100, 3, 7)]) [0, 10, 20, 21]
   = Return (Some (21, Lst [Num 100, Num 100]), [], [])"
  by (simp add: wait_for_saccade_start_def init_tracker_def sample_def gp_link_def
        try_data_dict_def is_valid_sample_def saccade_start_pass_def gp_diff_def py_div_def
        sqrt_40000)

lemma slice_all_not_subscriptable:
  "slice_all v = Return spos \<Longrightarrow> subscript spos ''gp'' = Raise TypeError"
  by (cases v) auto

lemma saccade_start_pass_spos:
  "saccade_start_pass tr prevpos t0 v0 newpos t1 = Return (Some spos, t0', v0') \<Longrightarrow>
   subscript spos ''gp'' = Raise TypeError"
  by (auto simp: saccade_start_pass_def then_do_eq_Return slice_all_not_subscriptable
           split: if_splits)

lemma saccade_start_loop_spos:
  "saccade_start_loop tr prevpos t0 v0 ls clk = Return ((stime, spos), ls', clk') \<Longrightarrow>
   subscript spos ''gp'' = Raise TypeError"
proof (induction ls arbitrary: prevpos t0 v0 clk)
  case Nil
  then show ?case by simp
next
  case (Cons l ls)
  then show ?case
    apply (auto split: outcome.splits list.splits option.splits)
    apply (rule saccade_start_pass_spos)
    apply assumption
    done
qed

lemma wait_for_saccade_start_spos:
  "wait_for_saccade_start tr ls clk = Return (Some (stime, spos), ls', clk') \<Longrightarrow>
   subscript spos ''gp'' = Raise TypeError"
  by (auto simp: wait_for_saccade_start_def split: if_splits outcome.splits list.splits
           dest: saccade_start_loop_spos)

lemma sq_deviation_not_subscriptable:
  "subscript spos ''gp'' = Raise TypeError \<Longrightarrow> sq_deviation prevpos spos = Return d \<Longrightarrow> False"
  by (auto simp: sq_deviation_def gp_diff_def then_do_eq_Return)

lemma wait_for_saccade_end_never_returns:
  "wait_for_saccade_end tr ls clk \<noteq> Return r"
  by (auto simp: wait_for_saccade_end_def then_do_eq_Return
           split: outcome.splits option.splits list.splits
           dest!: wait_for_saccade_start_spos dest: sq_deviation_not_subscriptable)

text \<open>
  C6. \<open>wait_for_saccade_end\<close> returns no triple: in mode \<open>pygaze\<close> unpacking the
  \<open>None\<close> of \<open>wait_for_saccade_start\<close> raises \<open>TypeError\<close>, and in mode \<open>native\<close> the
  start position is a coordinate list, so that \<open>spos['gp']\<close> raises \<open>TypeError\<close> before
  the loop is entered. By \<open>wait_for_saccade_end_never_returns\<close> this holds on every stream.
\<close>

theorem wait_for_saccade_end_raises:
  "wait_for_saccade_end (init_tracker 50 (50, 50) 1 1)
     (map gp_link [(100, 100, 1, 7), (300, 100, 2, 7), (310, 100, 3, 7), (311, 100, 4, 7)])
     [0, 10, 11, 20, 30, 40, 41]
   = Raise TypeError
   \<and> wait_for_saccade_end ((init_tracker 50 (50, 50) 1 1)\<lparr>eventdetection := ''native''\<rparr>)
     (map gp_link [(100, 100, 1, 7), (300, 100, 2, 7), (310, 100, 3, 7), (311, 100, 4, 7)])
     [0, 10, 11, 20, 30, 40, 41]
   = Raise TypeError"
  by (simp add: wait_for_saccade_end_def wait_for_saccade_start_def init_tracker_def
        sample_def gp_link_def try_data_dict_def is_valid_sample_def saccade_start_pass_def
        gp_diff_def sq_deviation_def py_div_def sqrt_40000)


lemma calculate_angular_velocity_never_returns:
  "calculate_angular_velocity gp3s eyes \<noteq> Return v"
  by (auto simp: calculate_angular_velocity_def then_do_eq_Return math_getattr_def Let_def)

lemma np_array_vec3: "np_array (Lst [Num x, Num y, Num z]) = Return [x, y, z]"
  by simp

lemma calculate_angular_velocity_well_formed:
  assumes "gp3s \<noteq> []" and "eyes \<noteq> []"
    and "hd gp3s = Dct [(''gp3'', Lst [Num x0, Num y0, Num z0]), (''ts'', Num t0), (''gidx'', g0)]"
    and "last gp3s = Dct [(''gp3'', Lst [Num x1, Num y1, Num z1]), (''ts'', Num t1), (''gidx'', g1)]"
    and "hd eyes = Dct [(''pc'', Lst [Num ex0, Num ey0, Num ez0]), (''ts'', Num et0), (''gidx'', eg0)]"
    and "last eyes = Dct [(''pc'', Lst [Num ex1, Num ey1, Num ez1]), (''ts'', Num et1), (''gidx'', eg1)]"
  shows "calculate_angular_velocity gp3s eyes = Raise AttributeError"
proof -
  have i0: "\<And>xs :: pyval list. xs \<noteq> [] \<Longrightarrow> index (Lst xs) 0 = Return (hd xs)"
    by (simp add: hd_conv_nth)
  have i1: "\<And>xs :: pyval list. xs \<noteq> [] \<Longrightarrow> index (Lst xs) (-1) = Return (last xs)"
  proof -
    fix xs :: "pyval list"
    assume ne: "xs \<noteq> []"
    then have len: "1 \<le> length xs" by (cases xs) simp_all
    then have "nat (int (length xs) + - 1) = length xs - 1" by simp
    then show "index (Lst xs) (-1) = Return (last xs)"
      using ne len by (simp add: last_conv_nth)
  qed
  show ?thesis
    using assms
    by (simp add: calculate_angular_velocity_def vec_between_def i0 i1 np_sub_def
          math_getattr_def Let_def del: index.simps)
qed

text \<open>
  C4. On two windows of three samples with non-zero vectors \<open>a\<close> and \<open>b\<close> and distinct
  first and last timestamps, \<open>calculate_angular_velocity\<close> raises \<open>AttributeError\<close> at its
  last line and returns no angular velocity. By
  \<open>calculate_angular_velocity_well_formed\<close> the same holds for all well-formed windows, and
  by \<open>calculate_angular_velocity_never_returns\<close> the function returns on no input.
\<close>

theorem calculate_angular_velocity_raises:
  "calculate_angular_velocity
     [Dct [(''gp3'', Lst [Num 0, Num 0, Num 100]), (''ts'', Num 0), (''gidx'', Num 1)],
      Dct [(''gp3'', Lst [Num 5, Num 0, Num 100]), (''ts'', Num 10), (''gidx'', Num 1)],
      Dct [(''gp3'', Lst [Num 10, Num 0, Num 100]), (''ts'', Num 20), (''gidx'', Num 1)]]
     [Dct [(''pc'', Lst [Num 0, Num 0, Num 0]), (''ts'', Num 0), (''gidx'', Num 1)],
      Dct [(''pc'', Lst [Num 0, Num 0, Num 0]), (''ts'', Num 10), (''gidx'', Num 1)],
      Dct [(''pc'', Lst [Num 0, Num 0, Num 0]), (''ts'', Num 20), (''gidx'', Num 1)]]
   = Raise AttributeError
   \<and> calculate_angular_velocity
     [Dct [(''gp3'', Lst [Num 0, Num 0, Num 100]), (''ts'', Num 0), (''gidx'', Num 1)],
      Dct [(''gp3'', Lst [Num 5, Num 0, Num 100]), (''ts'', Num 10), (''gidx'', Num 1)],
      Dct [(''gp3'', Lst [Num 10, Num 0, Num 100]), (''ts'', Num 20), (''gidx'', Num 1)]]
     [Dct [(''pc'', Lst [Num 0, Num 0, Num 0]), (''ts'', Num 0), (''gidx'', Num 1)],
      Dct [(''pc'', Lst [Num 0, Num 0, Num 0]), (''ts'', Num 10), (''gidx'', Num 1)],
      Dct [(''pc'', Lst [Num 0, Num 0, Num 0]), (''ts'', Num 20), (''gidx'', Num 1)]]
   \<noteq> Return (angular_velocity_spec [0, 0, 100] [10, 0, 100] [10, 0, 0] 20)"
  by (simp add: calculate_angular_velocity_def vec_between_def np_sub_def math_getattr_def Let_def)


lemma subscript_no_IndexError: "subscript v k \<noteq> Raise IndexError"
  by (cases v) (auto split: option.splits)

lemma eye_position_raises:
  "is_streaming l \<Longrightarrow> eye \<in> {0, 1, 2} \<Longrightarrow> eye_position eye l = Raise TypeError"
  by (auto simp: eye_position_def)

lemma sample_unbound:
  "is_streaming l \<Longrightarrow> subscript (get_gp l) ''gp'' = Raise e \<Longrightarrow> sample l = Raise UnboundLocalError"
  using subscript_no_IndexError [of "get_gp l" "''gp''"]
  by (auto simp: sample_def try_data_dict_def)

lemma sample3D_unbound:
  "is_streaming l \<Longrightarrow> subscript (get_gp3 l) ''gp3'' = Raise e \<Longrightarrow> sample3D l = Raise UnboundLocalError"
  using subscript_no_IndexError [of "get_gp3 l" "''gp3''"]
  by (auto simp: sample3D_def try_data_dict_def)

lemma try_body_no_IndexError:
  "then_do (subscript d k1) (\<lambda>g. then_do (subscript d k2) (\<lambda>t. then_do (subscript d k3) (\<lambda>i. Return (f g t i))))
     \<noteq> Raise IndexError"
  using subscript_no_IndexError [of d k1] subscript_no_IndexError [of d k2]
    subscript_no_IndexError [of d k3]
  by (cases "subscript d k1"; cases "subscript d k2"; cases "subscript d k3") simp_all

lemma sample_never_logs:
  "is_streaming l \<Longrightarrow> sample l = Return (d, logged) \<Longrightarrow> logged = []"
  using try_body_no_IndexError [of "get_gp l" "''gp''" "''ts''" "''gidx''"
      "\<lambda>g t i. Dct [(''gp'', g), (''ts'', t), (''gidx'', i)]"]
  by (auto simp: sample_def try_data_dict_def Let_def split: outcome.splits if_splits)

text \<open>
  C9. While the tracker is streaming and the link holds no gaze data yet (a dictionary
  without the key \<open>gp\<close>, respectively \<open>gp3\<close>), \<open>sample\<close> and \<open>sample3D\<close> raise
  \<open>UnboundLocalError\<close> and return no sentinel dictionary: the failed access raises
  \<open>KeyError\<close>, the handler is for \<open>IndexError\<close>, and the \<open>finally\<close> clause returns a
  variable that was never bound. By \<open>sample_unbound\<close> and \<open>sample3D_unbound\<close> every failed
  access ends so, and by \<open>sample_never_logs\<close> the handler that logs is never reached.
\<close>

theorem sample_no_data_raises:
  "sample \<lparr>is_streaming = True, get_gp = Dct [(''ts'', Num (-1))], get_gp3 = Dct [(''ts'', Num (-1))]\<rparr>
     = Raise UnboundLocalError
   \<and> sample3D \<lparr>is_streaming = True, get_gp = Dct [(''ts'', Num (-1))], get_gp3 = Dct [(''ts'', Num (-1))]\<rparr>
     = Raise UnboundLocalError"
  by (simp add: sample_def sample3D_def try_data_dict_def)


lemma retry_fetch_one_valid:
  "is_valid_sample gaze_pos ''gp'' = Return (True, lg) \<Longrightarrow> retry_fetch gaze_pos spos eye_pos = Return False"
  by (simp add: retry_fetch_def)

text \<open>
  The same on the snapshots of the link, for a tracker whose \<open>eye_used\<close> selects no eye,
  so that \<open>eye_position\<close> returns: with \<open>eye_used\<close> 0, 1 or 2 the fetch raises before
  anything is appended (\<open>eye_position_raises\<close>, \<open>fetch_samples_raises\<close>), and after an
  update of the windows the detector raises at \<open>is_same_event\<close>.
\<close>

lemma fetch_and_append_keeps_sentinel:
  "fetch_and_append ((init_tracker 50 (50, 50) 1 1)\<lparr>eye_used := 3\<rparr>)
     [\<lparr>is_streaming = True,
       get_gp = Dct [(''gp'', Lst [Num 100, Num 100]), (''ts'', Num 5), (''gidx'', Num 7)],
       get_gp3 = PyNone\<rparr>,
      \<lparr>is_streaming = True, get_gp = PyNone,
       get_gp3 = Dct [(''gp3'', Lst [Num (-1), Num (-1), Num (-1)]), (''ts'', Num 6), (''gidx'', Num 7)]\<rparr>,
      \<lparr>is_streaming = True, get_gp = PyNone, get_gp3 = PyNone\<rparr>]
   = Return ((init_tracker 50 (50, 50) 1 1)
       \<lparr>eye_used := 3,
        gaze_samples := [Dct [(''gp'', Lst [Num 100, Num 100]), (''ts'', Num 5), (''gidx'', Num 7)]],
        gp3_samples := [Dct [(''gp3'', Lst [Num (-1), Num (-1), Num (-1)]), (''ts'', Num 6), (''gidx'', Num 7)]],
        eye_samples := [PyNone]\<rparr>, [])"
  by (simp add: accept_fetched_def retry_fetch_def append_samples_def init_tracker_def
        is_valid_sample_def sample_def sample3D_def eye_position_def try_data_dict_def)

lemma fetch_samples_raises:
  "is_streaming l3 \<Longrightarrow> eye \<in> {0, 1, 2} \<Longrightarrow> fetch_samples eye (l1 # l2 # l3 # ls) \<noteq> Return r"
  by (auto simp: then_do_eq_Return eye_position_raises)

lemma lookup_is_same_event: "lookup_global ''is_same_event'' = Raise NameError"
  by (simp add: lookup_global_def module_globals_def)

lemma wait_for_fixation_start_experimental_never_returns:
  "wait_for_fixation_start_experimental tr ls \<noteq> Return r"
  by (auto simp: wait_for_fixation_start_experimental_def lookup_global_def module_globals_def
           split: outcome.splits)

lemma wait_for_fixation_end_experimental_never_returns:
  "wait_for_fixation_end_experimental tr ls \<noteq> Return r"
  by (auto simp: wait_for_fixation_end_experimental_def
        wait_for_fixation_start_experimental_never_returns split: outcome.splits)


text \<open>
  C10. With a recording identifier set, \<open>start_recording\<close> logs the error and leaves
  the session as it was (the three identifiers, and no call to the controller); with no
  identifier set, \<open>stop_recording\<close> does the same; and a \<open>stop_recording\<close> whose two
  controller calls return resets the recording identifier to \<open>None\<close>.
\<close>

theorem recording_guards:
  "(current_recording_id s \<noteq> PyNone \<longrightarrow>
      start_recording tg s = (s\<lparr>log_error := log_error s @ [already_recording]\<rparr>, Return ()))
   \<and> (current_recording_id s = PyNone \<longrightarrow>
      stop_recording tg s = (s\<lparr>log_error := log_error s @ [no_recording]\<rparr>, Return ()))
   \<and> (current_recording_id s \<noteq> PyNone
        \<and> link_stop_recording tg (current_recording_id s) = Return ()
        \<and> wait_until_recording_is_done tg (current_recording_id s) = Return res \<longrightarrow>
      snd (stop_recording tg s) = Return ()
      \<and> current_recording_id (fst (stop_recording tg s)) = PyNone
      \<and> link_calls (fst (stop_recording tg s)) =
          link_calls s @ [StopRecording (current_recording_id s),
                          WaitUntilRecordingIsDone (current_recording_id s)])"
  by (simp add: start_recording_def stop_recording_def Let_def)

theorem recording_guards_witness:
  "start_recording
     \<lparr>create_recording = (\<lambda>p. Return (Str ''rec2'')), link_start_recording = (\<lambda>r. Return ()),
      link_stop_recording = (\<lambda>r. Return ()), wait_until_recording_is_done = (\<lambda>r. Return (Num 1))\<rparr>
     \<lparr>current_recording_id = Str ''rec1'', current_participant_id = Str ''pa1'',
      current_project_id = Str ''pr1'', link_calls = [], log_error = [], log_debug = []\<rparr>
   = (\<lparr>current_recording_id = Str ''rec1'', current_participant_id = Str ''pa1'',
       current_project_id = Str ''pr1'', link_calls = [],
       log_error = [''The Tobii Pro Glasses is already recording!''], log_debug = []\<rparr>, Return ())
   \<and> stop_recording
     \<lparr>create_recording = (\<lambda>p. Return (Str ''rec2'')), link_start_recording = (\<lambda>r. Return ()),
      link_stop_recording = (\<lambda>r. Return ()), wait_until_recording_is_done = (\<lambda>r. Return (Num 1))\<rparr>
     \<lparr>current_recording_id = PyNone, current_participant_id = Str ''pa1'',
      current_project_id = Str ''pr1'', link_calls = [], log_error = [], log_debug = []\<rparr>
   = (\<lparr>current_recording_id = PyNone, current_participant_id = Str ''pa1'',
       current_project_id = Str ''pr1'', link_calls = [],
       log_error = [''There is no recordings started!''], log_debug = []\<rparr>, Return ())
   \<and> current_recording_id (fst (stop_recording
     \<lparr>create_recording = (\<lambda>p. Return (Str ''rec2'')), link_start_recording = (\<lambda>r. Return ()),
      link_stop_recording = (\<lambda>r. Return ()), wait_until_recording_is_done = (\<lambda>r. Return (Num 1))\<rparr>
     \<lparr>current_recording_id = Str ''rec1'', current_participant_id = Str ''pa1'',
      current_project_id = Str ''pr1'', link_calls = [], log_error = [], log_debug = []\<rparr>)) = PyNone"
  using recording_guards
    [of "\<lparr>current_recording_id = Str ''rec1'', current_participant_id = Str ''pa1'',
      current_project_id = Str ''pr1'', link_calls = [], log_error = [], log_debug = []\<rparr>"
     "\<lparr>create_recording = (\<lambda>p. Return (Str ''rec2'')), link_start_recording = (\<lambda>r. Return ()),
      link_stop_recording = (\<lambda>r. Return ()), wait_until_recording_is_done = (\<lambda>r. Return (Num 1))\<rparr>"
     "Num 1"]
    recording_guards
    [of "\<lparr>current_recording_id = PyNone, current_participant_id = Str ''pa1'',
      current_project_id = Str ''pr1'', link_calls = [], log_error = [], log_debug = []\<rparr>"
     "\<lparr>create_recording = (\<lambda>p. Return (Str ''rec2'')), link_start_recording = (\<lambda>r. Return ()),
      link_stop_recording = (\<lambda>r. Return ()), wait_until_recording_is_done = (\<lambda>r. Return (Num 1))\<rparr>"
     "Num 1"]
  by (simp add: already_recording_def no_recording_def)

lemma start_recording_fresh:
  "current_recording_id s = PyNone \<Longrightarrow> create_recording tg (current_participant_id s) = Return (Str r) \<Longrightarrow>
   link_start_recording tg (Str r) = Return () \<Longrightarrow>
   start_recording tg s =
     (s\<lparr>link_calls := link_calls s @ [CreateRecording (current_participant_id s), StartRecording (Str r)],
        current_recording_id := Str r,
        log_debug := log_debug s @ [''Recording '' @ r @ '' started!'']\<rparr>, Return ())"
  by (simp add: start_recording_def Let_def)

end
